theory Spec2Isabelle
  imports Main "HOL-Library.Char_ord" "HOL-Library.List_Lexorder" "HOL-Library.Multiset"
begin

section \<open>JavaScript strings\<close>

text \<open>
  Strings are character lists. The three \<^verbatim>\<open>String.prototype\<close> predicates the
  sources use are written out: \<^verbatim>\<open>s.startsWith(p)\<close>, \<^verbatim>\<open>s.endsWith(p)\<close> and
  \<^verbatim>\<open>s.includes(p)\<close>.
\<close>

definition startsWith :: "string \<Rightarrow> string \<Rightarrow> bool" where
  "startsWith s p = (take (length p) s = p)"

definition endsWith :: "string \<Rightarrow> string \<Rightarrow> bool" where
  "endsWith s p = (length p \<le> length s \<and> drop (length s - length p) s = p)"

fun str_includes :: "string \<Rightarrow> string \<Rightarrow> bool" where
  "str_includes [] p = (p = [])"
| "str_includes (c # cs) p = (startsWith (c # cs) p \<or> str_includes cs p)"

section \<open>supabase-token-extractor.ts\<close>

subsection \<open>The project pattern\<close>

text \<open>
  The regular expression \<^verbatim>\<open>/supabase\.com\/dashboard\/project\/([a-zA-Z0-9-_]+)/\<close> is a
  literal followed by one capture group, a greedy non-empty run of the class
  \<^verbatim>\<open>[a-zA-Z0-9-_]\<close> (the ranges a-z, A-Z and 0-9, the hyphen and the underscore).
  \<^verbatim>\<open>String.prototype.match\<close> without the global flag returns the leftmost match:
  it tries every start position from the left. Nothing follows the group, so the greedy run
  is the captured text. \<open>project_match\<close> returns the capture group, \<open>None\<close> for
  \<^verbatim>\<open>null\<close>.
\<close>

definition project_literal :: string where
  "project_literal = ''supabase.com/dashboard/project/''"

definition ref_char :: "char \<Rightarrow> bool" where
  "ref_char c =
     ((CHR ''a'' \<le> c \<and> c \<le> CHR ''z'') \<or> (CHR ''A'' \<le> c \<and> c \<le> CHR ''Z'') \<or>
      (CHR ''0'' \<le> c \<and> c \<le> CHR ''9'') \<or> c = CHR ''-'' \<or> c = CHR ''_'')"

definition project_match_at :: "string \<Rightarrow> string option" where
  "project_match_at s =
     (if startsWith s project_literal
      then (let run = takeWhile ref_char (drop (length project_literal) s)
            in if run = [] then None else Some run)
      else None)"

fun project_match :: "string \<Rightarrow> string option" where
  "project_match [] = project_match_at []"
| "project_match (c # cs) =
     (case project_match_at (c # cs) of Some r \<Rightarrow> Some r | None \<Rightarrow> project_match cs)"

subsection \<open>URL helpers\<close>

definition extractProjectRefFromUrl :: "string \<Rightarrow> string option" where
  "extractProjectRefFromUrl url = project_match url"

definition buildSupabaseDashboardUrl :: "string \<Rightarrow> string" where
  "buildSupabaseDashboardUrl projectRef = ''https://supabase.com/dashboard/project/'' @ projectRef"

subsection \<open>The platform's URL parser\<close>

text \<open>
  \<^verbatim>\<open>new URL(input)\<close> and \<^verbatim>\<open>new URL(input, base)\<close> belong to the runtime, not to
  this repository, so the functions that call them take the parser as an argument:
  \<open>None\<close> is the \<^verbatim>\<open>TypeError\<close> the constructor throws on a string it cannot
  parse. Of a parsed URL the sources read \<^verbatim>\<open>hostname\<close>, \<^verbatim>\<open>pathname\<close> and
  \<^verbatim>\<open>searchParams\<close>; \<^verbatim>\<open>searchParams.get(name)\<close> is the value of the first pair
  of that name, \<^verbatim>\<open>null\<close> when there is none.
\<close>

record url =
  hostname :: string
  pathname :: string
  searchParams :: "(string \<times> string) list"

type_synonym URL_new = "string \<Rightarrow> url option"

type_synonym URL_new_base = "string \<Rightarrow> string \<Rightarrow> url option"

definition searchParams_get :: "url \<Rightarrow> string \<Rightarrow> string option" where
  "searchParams_get u name = map_of (searchParams u) name"

subsection \<open>Page classification\<close>

definition isSupabaseLoginPage :: "URL_new \<Rightarrow> string \<Rightarrow> bool" where
  "isSupabaseLoginPage new_URL url =
     (case new_URL url of
        None \<Rightarrow> False
      | Some parsedUrl \<Rightarrow>
          str_includes (hostname parsedUrl) ''supabase.com'' \<and>
          (str_includes (pathname parsedUrl) ''/sign-in'' \<or>
           str_includes (pathname parsedUrl) ''/login'' \<or>
           str_includes (pathname parsedUrl) ''/auth'' \<or>
           pathname parsedUrl = ''/'' \<or>
           str_includes (pathname parsedUrl) ''/signin''))"

definition isSupabaseAuthenticatedPage :: "URL_new \<Rightarrow> string \<Rightarrow> bool" where
  "isSupabaseAuthenticatedPage new_URL url =
     (case new_URL url of
        None \<Rightarrow> False
      | Some parsedUrl \<Rightarrow>
          str_includes (hostname parsedUrl) ''supabase.com'' \<and>
          (startsWith (pathname parsedUrl) ''/dashboard/project/'' \<or>
           startsWith (pathname parsedUrl) ''/dashboard/projects'' \<or>
           startsWith (pathname parsedUrl) ''/dashboard/account'' \<or>
           startsWith (pathname parsedUrl) ''/dashboard/settings''))"

subsection \<open>Scripts\<close>

text \<open>
  The two scripts handed to the embedded browser are opaque source texts: the page
  verification script \<^verbatim>\<open>SUPABASE_TOKEN_EXTRACTION_SCRIPT\<close> of the utilities and the
  local-storage scan \<^verbatim>\<open>tokenScript\<close> written inline in the provider.
  \<^verbatim>\<open>buildSupabaseTokenExtractionScript\<close> ignores its argument.
\<close>

datatype script = SUPABASE_TOKEN_EXTRACTION_SCRIPT | tokenScript

definition buildSupabaseTokenExtractionScript :: "string option \<Rightarrow> script" where
  "buildSupabaseTokenExtractionScript projectRef = SUPABASE_TOKEN_EXTRACTION_SCRIPT"

section \<open>supabase-browser.ts\<close>

subsection \<open>Values returned by the embedded browser\<close>

text \<open>
  \<^verbatim>\<open>webContents.executeJavaScript\<close> resolves to an untyped value.
  \<open>truthy\<close> is JavaScript's conversion to boolean, \<open>get_property\<close> the member
  access \<^verbatim>\<open>v.name\<close>, which throws on \<^verbatim>\<open>undefined\<close> and \<^verbatim>\<open>null\<close>.
\<close>

datatype error =
    TypeError
  | NoCodeVerifier
  | OAuthError string
  | NoAuthorizationCode
  | AuthorizationTimeout
  | Failure string

datatype jsval =
    JUndefined
  | JNull
  | JBool bool
  | JNum int
  | JStr string
  | JObj "(string \<times> jsval) list"

fun truthy :: "jsval \<Rightarrow> bool" where
  "truthy JUndefined = False"
| "truthy JNull = False"
| "truthy (JBool b) = b"
| "truthy (JNum n) = (n \<noteq> 0)"
| "truthy (JStr s) = (s \<noteq> [])"
| "truthy (JObj props) = True"

fun get_property :: "jsval \<Rightarrow> string \<Rightarrow> error + jsval" where
  "get_property JUndefined name = Inl TypeError"
| "get_property JNull name = Inl TypeError"
| "get_property (JObj props) name =
     (case map_of props name of None \<Rightarrow> Inr JUndefined | Some v \<Rightarrow> Inr v)"
| "get_property v name = Inr JUndefined"

subsection \<open>navigationRules\<close>

definition navigationRules :: "URL_new \<Rightarrow> string \<Rightarrow> bool" where
  "navigationRules new_URL url =
     (case new_URL url of
        None \<Rightarrow> False
      | Some parsedUrl \<Rightarrow>
          hostname parsedUrl = ''supabase.com'' \<or>
          hostname parsedUrl = ''app.supabase.com'' \<or>
          hostname parsedUrl = ''supabase.io'' \<or>
          (endsWith (hostname parsedUrl) ''.supabase.com'' \<and>
           length (hostname parsedUrl) > length ''.supabase.com'') \<or>
          (endsWith (hostname parsedUrl) ''.supabase.io'' \<and>
           length (hostname parsedUrl) > length ''.supabase.io''))"

subsection \<open>extractTokens\<close>

text \<open>
  The argument of \<^verbatim>\<open>extractTokens\<close> carries the embedded browsing context:
  \<^verbatim>\<open>getURL()\<close> and \<^verbatim>\<open>executeJavaScript(source)\<close>, whose promise either resolves
  to a value or rejects. The model returns, beside the result (\<open>None\<close> for
  \<^verbatim>\<open>null\<close>), the scripts it has asked the browser to evaluate, in order.
\<close>

record webContents =
  getURL :: string
  executeJavaScript :: "script \<Rightarrow> error + jsval"

record credential =
  primary_token :: jsval
  project_ref :: "string option"
  extracted_from :: string

definition extractTokens :: "URL_new \<Rightarrow> webContents \<Rightarrow> script list \<times> credential option" where
  "extractTokens new_URL wc =
     (let url = getURL wc
      in if isSupabaseLoginPage new_URL url then ([], None)
         else if \<not> isSupabaseAuthenticatedPage new_URL url then ([], None)
         else
           (let projectRef = project_match url;
                extractionScript = buildSupabaseTokenExtractionScript projectRef
            in case executeJavaScript wc extractionScript of
                 Inl e \<Rightarrow> ([extractionScript], None)
               | Inr result \<Rightarrow>
                   (case get_property result ''success'' of
                      Inl e \<Rightarrow> ([extractionScript], None)
                    | Inr success \<Rightarrow>
                        (let accessToken =
                               (case executeJavaScript wc tokenScript of
                                  Inl e \<Rightarrow> JNull
                                | Inr v \<Rightarrow> v)
                         in if truthy success \<and> truthy accessToken
                            then ([extractionScript, tokenScript],
                                  Some \<lparr>primary_token = accessToken,
                                        project_ref = projectRef,
                                        extracted_from = url\<rparr>)
                            else ([extractionScript, tokenScript], None)))))"

section \<open>provider.ts\<close>

subsection \<open>Configuration and collaborators\<close>

text \<open>
  \<^verbatim>\<open>OAuthServerConfig\<close> is declared outside these files; the record has the fields the
  provider reads. An optional string is \<open>None\<close> when it is \<^verbatim>\<open>undefined\<close> or
  \<^verbatim>\<open>null\<close>, and \<open>nonempty\<close> keeps it when JavaScript takes it for true: when it is
  there and not the empty string. The discovery functions of the
  SDK and the persistence model \<^verbatim>\<open>McpServerModel\<close> are collaborators: each call either
  returns a value or throws, \<open>Inl\<close> being what is thrown. A promise can reject with any
  value, and the handlers of \<^verbatim>\<open>discoverScopes\<close> read the \<^verbatim>\<open>message\<close> of what they
  catch, so a discovery call throws a JavaScript value; the other handlers only log what they
  catch. Of the log, only the lines
  that tell one path from another are kept.
\<close>

record OAuthServerConfig =
  server_url :: string
  well_known_url :: "string option"
  supports_resource_metadata :: bool
  default_scopes :: "string list"
  scopes :: "string list"
  redirect_uris :: "string list"
  client_id :: "string option"
  client_secret :: "string option"

record metadata =
  scopes_supported :: "string list option"

record discovery =
  discoverOAuthProtectedResourceMetadata :: "string \<Rightarrow> jsval + metadata option"
  discoverAuthorizationServerMetadata :: "string \<Rightarrow> jsval + metadata option"

record OAuthClientInformation =
  info_client_id :: string
  info_client_secret :: "string option"

record mcp_server =
  oauthClientInfo :: "OAuthClientInformation option"

type_synonym getById = "string \<Rightarrow> error + mcp_server list"

type_synonym update = "string \<Rightarrow> (string \<times> jsval) list \<Rightarrow> error + nat"

datatype log_entry = LogInfo string | LogWarn string | LogError string

definition nonempty :: "string option \<Rightarrow> string option" where
  "nonempty s = (case s of None \<Rightarrow> None | Some v \<Rightarrow> if v = [] then None else Some v)"

subsection \<open>discoverScopes\<close>

text \<open>
  The function returns an array it was given: the \<^verbatim>\<open>scopes_supported\<close> of a
  metadata document, or \<^verbatim>\<open>config.default_scopes\<close> itself. \<^verbatim>\<open>init\<close> sorts the
  returned array in place, so the model returns with the scopes where they come from.

  Each discovery call sits in a \<^verbatim>\<open>try\<close> of its own, whose handler logs
  \<^verbatim>\<open>(error as Error).message\<close> and lets the function go on. Reading the message of
  \<^verbatim>\<open>null\<close> or \<^verbatim>\<open>undefined\<close> throws inside the handler; that error leaves the
  inner \<^verbatim>\<open>try\<close> and is caught by the outer one, which returns the configured default
  scopes. \<open>discovery_step\<close> is one guarded call: \<open>Inr (Some s)\<close> when the function
  returns the scopes \<open>s\<close>, \<open>Inr None\<close> when it goes on, \<open>Inl e\<close> when the handler
  has thrown \<open>e\<close>. \<open>discoverScopes_try\<close> is the body of the outer \<^verbatim>\<open>try\<close>.
\<close>

datatype scope_origin = ResourceMetadata | AuthorizationServerMetadata | ConfiguredDefault

definition discovery_step :: "jsval + metadata option \<Rightarrow> error + string list option" where
  "discovery_step r =
     (case r of
        Inl thrown \<Rightarrow>
          (case get_property thrown ''message'' of
             Inl e \<Rightarrow> Inl e
           | Inr message \<Rightarrow> Inr None)
      | Inr None \<Rightarrow> Inr None
      | Inr (Some md) \<Rightarrow>
          (case scopes_supported md of
             None \<Rightarrow> Inr None
           | Some s \<Rightarrow> if length s > 0 then Inr (Some s) else Inr None))"

definition wellKnownUrl :: "OAuthServerConfig \<Rightarrow> string" where
  "wellKnownUrl config =
     (case nonempty (well_known_url config) of
        Some w \<Rightarrow> w
      | None \<Rightarrow> server_url config @ ''/.well-known/oauth-authorization-server'')"

definition discoverScopes_try ::
  "discovery \<Rightarrow> OAuthServerConfig \<Rightarrow> error + scope_origin \<times> string list" where
  "discoverScopes_try sdk config =
     (case (if supports_resource_metadata config
            then discovery_step (discoverOAuthProtectedResourceMetadata sdk (server_url config))
            else Inr None) of
        Inl e \<Rightarrow> Inl e
      | Inr (Some s) \<Rightarrow> Inr (ResourceMetadata, s)
      | Inr None \<Rightarrow>
          (case discovery_step (discoverAuthorizationServerMetadata sdk (wellKnownUrl config)) of
             Inl e \<Rightarrow> Inl e
           | Inr (Some s) \<Rightarrow> Inr (AuthorizationServerMetadata, s)
           | Inr None \<Rightarrow> Inr (ConfiguredDefault, default_scopes config)))"

definition discoverScopes :: "discovery \<Rightarrow> OAuthServerConfig \<Rightarrow> scope_origin \<times> string list" where
  "discoverScopes sdk config =
     (case discoverScopes_try sdk config of
        Inl e \<Rightarrow> (ConfiguredDefault, default_scopes config)
      | Inr found \<Rightarrow> found)"

subsection \<open>JSON.stringify and Array.prototype.sort on arrays of strings\<close>

text \<open>
  \<^verbatim>\<open>JSON.stringify\<close> of an array of strings writes the quoted elements between
  brackets, separated by commas. Quoting escapes the double quote, the backslash and the
  control characters below U+0020 (the short forms for backspace, tab, line feed, form feed and
  carriage return, \<^verbatim>\<open>\u00XX\<close> in lower-case hexadecimal for the others).
  \<^verbatim>\<open>sort()\<close> without a comparator orders strings by their code units, which is the
  lexicographic order of character lists; it sorts the array in place.
\<close>

definition hex_digit :: "nat \<Rightarrow> char" where
  "hex_digit n = ''0123456789abcdef'' ! (n mod 16)"

definition json_escape :: "char \<Rightarrow> string" where
  "json_escape c =
     (if c = CHR 0x22 then [CHR 0x5C, CHR 0x22]
      else if c = CHR 0x5C then [CHR 0x5C, CHR 0x5C]
      else if c = CHR 0x08 then [CHR 0x5C, CHR ''b'']
      else if c = CHR 0x09 then [CHR 0x5C, CHR ''t'']
      else if c = CHR 0x0A then [CHR 0x5C, CHR ''n'']
      else if c = CHR 0x0C then [CHR 0x5C, CHR ''f'']
      else if c = CHR 0x0D then [CHR 0x5C, CHR ''r'']
      else if c < CHR 0x20
        then [CHR 0x5C, CHR ''u'', CHR ''0'', CHR ''0'',
              hex_digit (of_char c div 16), hex_digit (of_char c mod 16)]
      else [c])"

definition QuoteJSONString :: "string \<Rightarrow> string" where
  "QuoteJSONString s = CHR 0x22 # concat (map json_escape s) @ [CHR 0x22]"

fun join_comma :: "string list \<Rightarrow> string" where
  "join_comma [] = []"
| "join_comma [x] = x"
| "join_comma (x # y # ys) = x @ CHR '','' # join_comma (y # ys)"

definition JSON_stringify :: "string list \<Rightarrow> string" where
  "JSON_stringify xs = CHR ''['' # join_comma (map QuoteJSONString xs) @ [CHR '']'']"

subsection \<open>init\<close>

text \<open>
  \<^verbatim>\<open>init\<close> sorts both arrays in place before it compares their serialisations:
  the discovered array, which is \<^verbatim>\<open>config.default_scopes\<close> when discovery has fallen
  back to it, and \<^verbatim>\<open>config.scopes\<close>. The two arrays of the configuration are taken
  to be distinct objects. The model returns the configuration as \<^verbatim>\<open>init\<close> leaves it
  and the log line of the update.
\<close>

definition init :: "discovery \<Rightarrow> OAuthServerConfig \<Rightarrow> OAuthServerConfig \<times> log_entry list" where
  "init sdk config =
     (case discoverScopes sdk config of
        (origin, discoveredScopes) \<Rightarrow>
          if length discoveredScopes > 0
          then
            (let sorted_discovered = sort discoveredScopes;
                 sorted_configured = sort (scopes config);
                 config1 = config\<lparr>scopes := sorted_configured,
                                  default_scopes :=
                                    (if origin = ConfiguredDefault then sorted_discovered
                                     else default_scopes config)\<rparr>
             in if JSON_stringify sorted_discovered \<noteq> JSON_stringify sorted_configured
                then (config1\<lparr>scopes := sorted_discovered\<rparr>,
                      [LogInfo ''Updated to use discovered scopes''])
                else (config1, []))
          else (config, []))"

subsection \<open>clientInformation\<close>

text \<open>
  The result is \<open>None\<close> for \<^verbatim>\<open>undefined\<close>. Beside it the model returns the server
  ids it has queried the persistence model for, in order.
\<close>

definition clientInformation ::
  "getById \<Rightarrow> OAuthServerConfig \<Rightarrow> string \<Rightarrow> string list \<times> OAuthClientInformation option" where
  "clientInformation McpServerModel_getById config serverId =
     (case nonempty (client_id config) of
        Some cid \<Rightarrow>
          ([], Some \<lparr>info_client_id = cid, info_client_secret = nonempty (client_secret config)\<rparr>)
      | None \<Rightarrow>
          (case McpServerModel_getById serverId of
             Inl e \<Rightarrow> ([serverId], None)
           | Inr [] \<Rightarrow> ([serverId], None)
           | Inr (server0 # others) \<Rightarrow>
               (case oauthClientInfo server0 of
                  None \<Rightarrow> ([serverId], None)
                | Some cached \<Rightarrow>
                    ([serverId],
                     Some \<lparr>info_client_id = info_client_id cached,
                           info_client_secret = nonempty (info_client_secret cached)\<rparr>))))"

subsection \<open>startCallbackServer\<close>

text \<open>
  The listener is a promise and an HTTP server. Its state is the promise's settlement
  (\<open>None\<close> while pending; \<^verbatim>\<open>resolve\<close> and \<^verbatim>\<open>reject\<close> on a settled promise do
  nothing) and whether \<^verbatim>\<open>server.close()\<close> has been called. Closing stops the server
  from accepting connections; a request on a connection it already has still reaches the
  handler. The events are a request (with its \<^verbatim>\<open>req.url\<close>, which may be undefined), the
  timer set for five minutes, and the server's \<^verbatim>\<open>error\<close> event.
\<close>

datatype page =
    OAuthErrorPage
  | NoAuthorizationCodePage
  | AuthorizationSuccessfulPage
  | ServerErrorPage
  | WaitingPage

record response =
  status :: nat
  body :: page

datatype settlement = Resolved string | Rejected error

record listener =
  outcome :: "settlement option"
  close_called :: bool

datatype event = Request "string option" | Timeout | ServerError string


definition settle :: "settlement \<Rightarrow> listener \<Rightarrow> listener" where
  "settle s l = (if outcome l = None then l\<lparr>outcome := Some s\<rparr> else l)"

definition server_close :: "listener \<Rightarrow> listener" where
  "server_close l = l\<lparr>close_called := True\<rparr>"


definition requestListener :: "URL_new_base \<Rightarrow> string option \<Rightarrow> listener \<Rightarrow> response \<times> listener" where
  "requestListener new_URL req_url l =
     (case req_url of
        None \<Rightarrow> (\<lparr>status = 404, body = WaitingPage\<rparr>, l)
      | Some u \<Rightarrow>
          if str_includes u ''code='' \<or> startsWith u ''/oauth/callback''
          then
            (case new_URL u ''http://localhost:8080'' of
               None \<Rightarrow>
                 (\<lparr>status = 500, body = ServerErrorPage\<rparr>,
                  settle (Rejected TypeError) (server_close l))
             | Some parsed \<Rightarrow>
                 (case nonempty (searchParams_get parsed ''error'') of
                    Some err \<Rightarrow>
                      (\<lparr>status = 400, body = OAuthErrorPage\<rparr>,
                       settle (Rejected (OAuthError err)) (server_close l))
                  | None \<Rightarrow>
                      (case nonempty (searchParams_get parsed ''code'') of
                         None \<Rightarrow>
                           (\<lparr>status = 400, body = NoAuthorizationCodePage\<rparr>,
                            settle (Rejected NoAuthorizationCode) (server_close l))
                       | Some code \<Rightarrow>
                           (\<lparr>status = 200, body = AuthorizationSuccessfulPage\<rparr>,
                            settle (Resolved code) (server_close l)))))
          else (\<lparr>status = 404, body = WaitingPage\<rparr>, l))"

definition step :: "URL_new_base \<Rightarrow> event \<Rightarrow> listener \<Rightarrow> response option \<times> listener" where
  "step new_URL e l =
     (case e of
        Request req_url \<Rightarrow>
          (case requestListener new_URL req_url l of (r, l') \<Rightarrow> (Some r, l'))
      | Timeout \<Rightarrow> (None, settle (Rejected AuthorizationTimeout) (server_close l))
      | ServerError msg \<Rightarrow> (None, settle (Rejected (Failure msg)) l))"

fun run :: "URL_new_base \<Rightarrow> event list \<Rightarrow> listener \<Rightarrow> response option list \<times> listener" where
  "run new_URL [] l = ([], l)"
| "run new_URL (e # es) l =
     (case step new_URL e l of
        (r, l') \<Rightarrow> (case run new_URL es l' of (rs, l'') \<Rightarrow> (r # rs, l'')))"

subsection \<open>The code verifier store\<close>

text \<open>
  \<^verbatim>\<open>codeVerifierStore\<close> is a module-level \<^verbatim>\<open>Map\<close> from server id to verifier, empty
  when the module is loaded. The three methods read \<^verbatim>\<open>this.serverId\<close>; the model takes
  it as an argument and passes the store explicitly. \<^verbatim>\<open>clear\<close> returns the store, the
  log lines written and what its promise settles to.
\<close>

type_synonym codeVerifierStore = "string \<rightharpoonup> string"

definition saveCodeVerifier :: "string \<Rightarrow> string \<Rightarrow> codeVerifierStore \<Rightarrow> codeVerifierStore" where
  "saveCodeVerifier serverId verifier store = store(serverId \<mapsto> verifier)"

definition codeVerifier :: "string \<Rightarrow> codeVerifierStore \<Rightarrow> error + string" where
  "codeVerifier serverId store =
     (case nonempty (store serverId) of
        None \<Rightarrow> Inl NoCodeVerifier
      | Some verifier \<Rightarrow> Inr verifier)"

definition cleared_fields :: "(string \<times> jsval) list" where
  "cleared_fields =
     [(''oauthTokens'', JNull), (''oauthClientInfo'', JNull),
      (''oauthServerMetadata'', JNull), (''oauthResourceMetadata'', JNull)]"

definition clear ::
  "update \<Rightarrow> string \<Rightarrow> codeVerifierStore \<Rightarrow> codeVerifierStore \<times> log_entry list \<times> (error + unit)" where
  "clear McpServerModel_update serverId store =
     (let store' = store(serverId := None)
      in case McpServerModel_update serverId cleared_fields of
           Inr rows \<Rightarrow> (store', [LogInfo ''Cleared all OAuth data from database and memory''], Inr ())
         | Inl e \<Rightarrow> (store', [LogError ''Failed to clear OAuth data from database:''], Inr ()))"

text \<open>
  A history of calls on the store, by any provider instances, and the store it leaves.
\<close>

datatype store_call = SaveCodeVerifier string string | Clear string

fun store_after :: "update \<Rightarrow> store_call list \<Rightarrow> codeVerifierStore \<Rightarrow> codeVerifierStore" where
  "store_after upd [] store = store"
| "store_after upd (SaveCodeVerifier serverId verifier # calls) store =
     store_after upd calls (saveCodeVerifier serverId verifier store)"
| "store_after upd (Clear serverId # calls) store =
     store_after upd calls (fst (clear upd serverId store))"

section \<open>The verifier requirement, in the specification's words\<close>

text \<open>
  The specification speaks of the verifier persisted for a session since the last clear.
  \<open>latest_call\<close> reads a history from the most recent call backwards, and
  \<open>saved_since_clear\<close> is the verifier of the most recent save for the server id, provided
  no clear for that id came after it.
\<close>

fun latest_call :: "string \<Rightarrow> store_call list \<Rightarrow> string option" where
  "latest_call serverId [] = None"
| "latest_call serverId (SaveCodeVerifier s verifier # earlier) =
     (if s = serverId then Some verifier else latest_call serverId earlier)"
| "latest_call serverId (Clear s # earlier) =
     (if s = serverId then None else latest_call serverId earlier)"

definition saved_since_clear :: "string \<Rightarrow> store_call list \<Rightarrow> string option" where
  "saved_since_clear serverId calls = latest_call serverId (rev calls)"

section \<open>Example inputs\<close>

text \<open>
  Concrete collaborators and inputs for the examples below. \<open>example_URL\<close> and
  \<open>example_callback_URL\<close> give the value of \<^verbatim>\<open>new URL(input)\<close> and of
  \<^verbatim>\<open>new URL(input, base)\<close> on the strings the examples use; on the request target
  \<^verbatim>\<open>//?code=1\<close> the constructor throws, the host being empty. \<open>unreachable\<close> is
  a discovery whose calls reject with an error object; the resource metadata call of
  \<open>null_rejecting\<close> rejects with \<^verbatim>\<open>null\<close>, and its authorization server advertises
  scopes at the well-known URL derived from the server URL of \<open>example_config\<close>.
\<close>

definition example_URL :: URL_new where
  "example_URL s =
     (if s = ''https://supabase.com/dashboard/sign-in''
        then Some \<lparr>hostname = ''supabase.com'', pathname = ''/dashboard/sign-in'', searchParams = []\<rparr>
      else if s = ''https://supabase.com/dashboard/project/abcd1234''
        then Some \<lparr>hostname = ''supabase.com'', pathname = ''/dashboard/project/abcd1234'',
                   searchParams = []\<rparr>
      else if s = ''https://supabase.com/docs''
        then Some \<lparr>hostname = ''supabase.com'', pathname = ''/docs'', searchParams = []\<rparr>
      else if s = ''https://supabase.com.attacker.example/login''
        then Some \<lparr>hostname = ''supabase.com.attacker.example'', pathname = ''/login'',
                   searchParams = []\<rparr>
      else None)"

definition example_page :: "string \<Rightarrow> jsval \<Rightarrow> jsval \<Rightarrow> webContents" where
  "example_page url verification token =
     \<lparr>getURL = url,
      executeJavaScript =
        (\<lambda>s. case s of SUPABASE_TOKEN_EXTRACTION_SCRIPT \<Rightarrow> Inr verification
                      | tokenScript \<Rightarrow> Inr token)\<rparr>"


definition example_config :: OAuthServerConfig where
  "example_config =
     \<lparr>server_url = ''https://mcp.example.com'', well_known_url = None,
      supports_resource_metadata = True,
      default_scopes = [''read'', ''write''], scopes = [''read'', ''write''],
      redirect_uris = [''http://localhost:8080/oauth/callback''],
      client_id = None, client_secret = None\<rparr>"

definition example_getById :: getById where
  "example_getById serverId =
     (if serverId = ''server-1''
      then Inr [\<lparr>oauthClientInfo = Some \<lparr>info_client_id = ''dynamic-id'', info_client_secret = None\<rparr>\<rparr>]
      else Inr [])"

definition unreachable :: discovery where
  "unreachable =
     \<lparr>discoverOAuthProtectedResourceMetadata =
        (\<lambda>u. Inl (JObj [(''message'', JStr ''fetch failed'')])),
      discoverAuthorizationServerMetadata =
        (\<lambda>u. Inl (JObj [(''message'', JStr ''fetch failed'')]))\<rparr>"


definition update_fails :: update where
  "update_fails serverId patch = Inl (Failure ''database is locked'')"

definition update_ok :: update where
  "update_ok serverId patch = Inr 1"

section \<open>Properties\<close>

subsection \<open>The project pattern and the URL helpers\<close>

lemma project_match_at_literal:
  "project_match_at (project_literal @ r) =
     (if takeWhile ref_char r = [] then None else Some (takeWhile ref_char r))"
  by (simp add: project_match_at_def startsWith_def Let_def)

lemma project_match_built:
  "project_match (''https://'' @ project_literal @ r) = project_match (project_literal @ r)"
  by (simp add: project_match_at_def startsWith_def project_literal_def)

text \<open>
  Claim C10. For every non-empty project reference made only of the characters
  \<^verbatim>\<open>[a-zA-Z0-9-_]\<close>, extracting the project reference from the dashboard URL built for
  it returns exactly that reference.
\<close>

theorem extract_build_roundtrip:
  assumes "projectRef \<noteq> []" and "\<forall>c \<in> set projectRef. ref_char c"
  shows "extractProjectRefFromUrl (buildSupabaseDashboardUrl projectRef) = Some projectRef"
proof -
  have run: "takeWhile ref_char projectRef = projectRef"
    using assms(2) by simp
  have url: "buildSupabaseDashboardUrl projectRef = ''https://'' @ project_literal @ projectRef"
    by (simp add: buildSupabaseDashboardUrl_def project_literal_def)
  obtain c cs where lit: "project_literal = c # cs"
    by (simp add: project_literal_def)
  have "project_match (project_literal @ projectRef) = Some projectRef"
    using project_match_at_literal [of projectRef] run assms(1)
    by (simp add: lit)
  then show ?thesis
    by (simp only: extractProjectRefFromUrl_def url project_match_built)
qed

theorem extract_build_roundtrip_witness:
  "''abc-123_X'' \<noteq> [] \<and> list_all ref_char ''abc-123_X'' \<and>
   extractProjectRefFromUrl (buildSupabaseDashboardUrl ''abc-123_X'') = Some ''abc-123_X''"
proof -
  have a: "''abc-123_X'' \<noteq> []" by simp
  have b: "\<forall>c \<in> set ''abc-123_X''. ref_char c" by (simp add: ref_char_def)
  show ?thesis using a b extract_build_roundtrip [OF a b] by (simp add: list_all_iff)
qed

subsection \<open>The navigation guard\<close>

lemma endsWith_iff:
  "(endsWith h s \<and> length h > length s) = (\<exists>p. p \<noteq> [] \<and> h = p @ s)"
proof
  assume a: "endsWith h s \<and> length h > length s"
  then have "h = take (length h - length s) h @ s"
    by (metis append_take_drop_id endsWith_def)
  moreover have "take (length h - length s) h \<noteq> []" using a by auto
  ultimately show "\<exists>p. p \<noteq> [] \<and> h = p @ s" by blast
next
  assume "\<exists>p. p \<noteq> [] \<and> h = p @ s"
  then show "endsWith h s \<and> length h > length s"
    by (auto simp: endsWith_def)
qed

lemma navigationRules_iff:
  "navigationRules new_URL url =
     (\<exists>parsed. new_URL url = Some parsed \<and>
        (hostname parsed = ''supabase.com'' \<or> hostname parsed = ''app.supabase.com'' \<or>
         hostname parsed = ''supabase.io'' \<or>
         (\<exists>p. p \<noteq> [] \<and> hostname parsed = p @ ''.supabase.com'') \<or>
         (\<exists>p. p \<noteq> [] \<and> hostname parsed = p @ ''.supabase.io'')))"
  unfolding navigationRules_def endsWith_iff [symmetric]
  by (cases "new_URL url") simp_all

text \<open>
  Claim C1. The navigation guard fails closed: \<open>navigationRules\<close> returns false on every
  string the URL parser rejects, and on every URL whose hostname is none of
  \<^verbatim>\<open>supabase.com\<close>, \<^verbatim>\<open>app.supabase.com\<close> and \<^verbatim>\<open>supabase.io\<close> and is not
  a non-empty prefix followed by \<^verbatim>\<open>.supabase.com\<close> or \<^verbatim>\<open>.supabase.io\<close>.
\<close>

theorem navigationRules_fail_closed:
  "(new_URL url = None \<longrightarrow> \<not> navigationRules new_URL url) \<and>
   (new_URL url = Some parsed \<and>
    hostname parsed \<noteq> ''supabase.com'' \<and>
    hostname parsed \<noteq> ''app.supabase.com'' \<and>
    hostname parsed \<noteq> ''supabase.io'' \<and>
    (\<forall>p. p \<noteq> [] \<longrightarrow> hostname parsed \<noteq> p @ ''.supabase.com'') \<and>
    (\<forall>p. p \<noteq> [] \<longrightarrow> hostname parsed \<noteq> p @ ''.supabase.io'')
    \<longrightarrow> \<not> navigationRules new_URL url)"
  unfolding navigationRules_iff by auto

theorem navigationRules_fail_closed_witness:
  "example_URL ''supabase.com'' = None \<and>
   \<not> navigationRules example_URL ''supabase.com'' \<and>
   example_URL ''https://supabase.com.attacker.example/login'' =
     Some \<lparr>hostname = ''supabase.com.attacker.example'', pathname = ''/login'', searchParams = []\<rparr> \<and>
   \<not> (\<exists>p. p \<noteq> [] \<and> ''supabase.com.attacker.example'' = p @ ''.supabase.com'') \<and>
   \<not> (\<exists>p. p \<noteq> [] \<and> ''supabase.com.attacker.example'' = p @ ''.supabase.io'') \<and>
   \<not> navigationRules example_URL ''https://supabase.com.attacker.example/login''"
proof -
  have none: "example_URL ''supabase.com'' = None"
    by (simp add: example_URL_def)
  have some: "example_URL ''https://supabase.com.attacker.example/login'' =
      Some \<lparr>hostname = ''supabase.com.attacker.example'', pathname = ''/login'', searchParams = []\<rparr>"
    by (simp add: example_URL_def)
  have com: "\<forall>p. p \<noteq> [] \<longrightarrow> ''supabase.com.attacker.example'' \<noteq> p @ ''.supabase.com''"
    using endsWith_iff [of "''supabase.com.attacker.example''" "''.supabase.com''"]
    by (simp add: endsWith_def)
  have io: "\<forall>p. p \<noteq> [] \<longrightarrow> ''supabase.com.attacker.example'' \<noteq> p @ ''.supabase.io''"
    using endsWith_iff [of "''supabase.com.attacker.example''" "''.supabase.io''"]
    by (simp add: endsWith_def)
  show ?thesis
    using none some com io
      navigationRules_fail_closed [of example_URL "''supabase.com''"]
      navigationRules_fail_closed [of example_URL "''https://supabase.com.attacker.example/login''"
        "\<lparr>hostname = ''supabase.com.attacker.example'', pathname = ''/login'', searchParams = []\<rparr>"]
    by simp
qed

subsection \<open>Token extraction\<close>

text \<open>
  Claim C8. On a login page, and on a page that is not an authenticated page,
  \<open>extractTokens\<close> returns null and evaluates no script. On an authenticated page it
  returns null when the verification script reports no success, and when the token script
  throws or yields no token. It returns a credential only on an authenticated page that is
  not a login page, after both scripts, and then the credential holds the token reported,
  the project reference matched in the URL and the URL itself; on such a page with a
  reported success and a token it does return that credential.
\<close>

theorem extractTokens_gated:
  "(isSupabaseLoginPage new_URL (getURL wc) \<longrightarrow> extractTokens new_URL wc = ([], None)) \<and>
   (\<not> isSupabaseAuthenticatedPage new_URL (getURL wc) \<longrightarrow> extractTokens new_URL wc = ([], None)) \<and>
   (isSupabaseAuthenticatedPage new_URL (getURL wc) \<and>
    executeJavaScript wc SUPABASE_TOKEN_EXTRACTION_SCRIPT = Inr result \<and>
    get_property result ''success'' = Inr success \<and> \<not> truthy success
    \<longrightarrow> snd (extractTokens new_URL wc) = None) \<and>
   (isSupabaseAuthenticatedPage new_URL (getURL wc) \<and>
    (executeJavaScript wc tokenScript = Inl e \<or>
     (executeJavaScript wc tokenScript = Inr token \<and> \<not> truthy token))
    \<longrightarrow> snd (extractTokens new_URL wc) = None) \<and>
   (snd (extractTokens new_URL wc) = Some cred
    \<longrightarrow> isSupabaseAuthenticatedPage new_URL (getURL wc) \<and>
        \<not> isSupabaseLoginPage new_URL (getURL wc) \<and>
        executeJavaScript wc tokenScript = Inr (primary_token cred) \<and>
        truthy (primary_token cred) \<and>
        project_ref cred = project_match (getURL wc) \<and>
        extracted_from cred = getURL wc \<and>
        fst (extractTokens new_URL wc) = [SUPABASE_TOKEN_EXTRACTION_SCRIPT, tokenScript]) \<and>
   (isSupabaseAuthenticatedPage new_URL (getURL wc) \<and>
    \<not> isSupabaseLoginPage new_URL (getURL wc) \<and>
    executeJavaScript wc SUPABASE_TOKEN_EXTRACTION_SCRIPT = Inr result \<and>
    get_property result ''success'' = Inr success \<and> truthy success \<and>
    executeJavaScript wc tokenScript = Inr token \<and> truthy token
    \<longrightarrow> extractTokens new_URL wc =
          ([SUPABASE_TOKEN_EXTRACTION_SCRIPT, tokenScript],
           Some \<lparr>primary_token = token, project_ref = project_match (getURL wc),
                 extracted_from = getURL wc\<rparr>))"
proof -
  note defs = extractTokens_def Let_def buildSupabaseTokenExtractionScript_def
  have a: "extractTokens new_URL wc = ([], None)" if "isSupabaseLoginPage new_URL (getURL wc)"
    using that by (simp add: defs)
  have b: "extractTokens new_URL wc = ([], None)"
    if "\<not> isSupabaseAuthenticatedPage new_URL (getURL wc)"
    using that by (simp add: defs)
  have c: "snd (extractTokens new_URL wc) = None"
    if "executeJavaScript wc SUPABASE_TOKEN_EXTRACTION_SCRIPT = Inr result"
      "get_property result ''success'' = Inr success" "\<not> truthy success"
    using that by (simp add: defs)
  have d: "snd (extractTokens new_URL wc) = None"
    if "executeJavaScript wc tokenScript = Inl e \<or>
        (executeJavaScript wc tokenScript = Inr token \<and> \<not> truthy token)"
    using that by (auto simp: defs split: sum.splits)
  have e: "isSupabaseAuthenticatedPage new_URL (getURL wc) \<and>
        \<not> isSupabaseLoginPage new_URL (getURL wc) \<and>
        executeJavaScript wc tokenScript = Inr (primary_token cred) \<and>
        truthy (primary_token cred) \<and>
        project_ref cred = project_match (getURL wc) \<and>
        extracted_from cred = getURL wc \<and>
        fst (extractTokens new_URL wc) = [SUPABASE_TOKEN_EXTRACTION_SCRIPT, tokenScript]"
    if "snd (extractTokens new_URL wc) = Some cred"
    using that by (auto simp: defs split: sum.splits if_splits)
  have f: "extractTokens new_URL wc =
          ([SUPABASE_TOKEN_EXTRACTION_SCRIPT, tokenScript],
           Some \<lparr>primary_token = token, project_ref = project_match (getURL wc),
                 extracted_from = getURL wc\<rparr>)"
    if "isSupabaseAuthenticatedPage new_URL (getURL wc)"
      "\<not> isSupabaseLoginPage new_URL (getURL wc)"
      "executeJavaScript wc SUPABASE_TOKEN_EXTRACTION_SCRIPT = Inr result"
      "get_property result ''success'' = Inr success" "truthy success"
      "executeJavaScript wc tokenScript = Inr token" "truthy token"
    using that by (simp add: defs)
  show ?thesis using a b c d e f by blast
qed

theorem extractTokens_gated_witness:
  "extractTokens example_URL
     (example_page ''https://supabase.com/dashboard/sign-in''
        (JObj [(''success'', JBool True)]) (JStr ''sbp_token'')) = ([], None) \<and>
   extractTokens example_URL
     (example_page ''https://supabase.com/docs''
        (JObj [(''success'', JBool True)]) (JStr ''sbp_token'')) = ([], None) \<and>
   snd (extractTokens example_URL
     (example_page ''https://supabase.com/dashboard/project/abcd1234''
        (JObj [(''success'', JBool False), (''error'', JStr ''Not on Supabase domain'')])
        (JStr ''sbp_token''))) = None \<and>
   snd (extractTokens example_URL
     (example_page ''https://supabase.com/dashboard/project/abcd1234''
        (JObj [(''success'', JBool True)]) JNull)) = None \<and>
   extractTokens example_URL
     (example_page ''https://supabase.com/dashboard/project/abcd1234''
        (JObj [(''success'', JBool True)]) (JStr ''sbp_token'')) =
     ([SUPABASE_TOKEN_EXTRACTION_SCRIPT, tokenScript],
      Some \<lparr>primary_token = JStr ''sbp_token'', project_ref = Some ''abcd1234'',
            extracted_from = ''https://supabase.com/dashboard/project/abcd1234''\<rparr>)"
proof -
  let ?ok = "JObj [(''success'', JBool True)]"
  let ?no = "JObj [(''success'', JBool False), (''error'', JStr ''Not on Supabase domain'')]"
  let ?tok = "JStr ''sbp_token''"
  let ?project = "''https://supabase.com/dashboard/project/abcd1234''"
  have login: "isSupabaseLoginPage example_URL ''https://supabase.com/dashboard/sign-in''"
    by (simp add: isSupabaseLoginPage_def example_URL_def startsWith_def)
  have docs: "\<not> isSupabaseAuthenticatedPage example_URL ''https://supabase.com/docs''"
    by (simp add: isSupabaseAuthenticatedPage_def example_URL_def startsWith_def)
  have auth: "isSupabaseAuthenticatedPage example_URL ?project"
    by (simp add: isSupabaseAuthenticatedPage_def example_URL_def startsWith_def)
  have nologin: "\<not> isSupabaseLoginPage example_URL ?project"
    by (simp add: isSupabaseLoginPage_def example_URL_def startsWith_def)
  have ref: "project_match ?project = Some ''abcd1234''"
    by (simp add: project_match_at_def startsWith_def project_literal_def ref_char_def)
  have url [simp]: "getURL (example_page u v w) = u" for u v w
    by (simp add: example_page_def)
  have ver [simp]: "executeJavaScript (example_page u v w) SUPABASE_TOKEN_EXTRACTION_SCRIPT = Inr v"
    and tok [simp]: "executeJavaScript (example_page u v w) tokenScript = Inr w" for u v w
    by (simp_all add: example_page_def)
  have 1: "extractTokens example_URL
      (example_page ''https://supabase.com/dashboard/sign-in'' ?ok ?tok) = ([], None)"
    using extractTokens_gated [of example_URL
        "example_page ''https://supabase.com/dashboard/sign-in'' ?ok ?tok"] login
    by simp
  have 2: "extractTokens example_URL (example_page ''https://supabase.com/docs'' ?ok ?tok) = ([], None)"
    using extractTokens_gated [of example_URL "example_page ''https://supabase.com/docs'' ?ok ?tok"] docs
    by simp
  have 3: "snd (extractTokens example_URL (example_page ?project ?no ?tok)) = None"
    using extractTokens_gated [of example_URL "example_page ?project ?no ?tok" ?no "JBool False"] auth
    by simp
  have 4: "snd (extractTokens example_URL (example_page ?project ?ok JNull)) = None"
    using extractTokens_gated [of example_URL "example_page ?project ?ok JNull" _ _ _ JNull] auth
    by simp
  have 5: "extractTokens example_URL (example_page ?project ?ok ?tok) =
     ([SUPABASE_TOKEN_EXTRACTION_SCRIPT, tokenScript],
      Some \<lparr>primary_token = ?tok, project_ref = Some ''abcd1234'', extracted_from = ?project\<rparr>)"
    using extractTokens_gated [of example_URL "example_page ?project ?ok ?tok" ?ok "JBool True" _ ?tok]
      auth nologin ref
    by simp
  show ?thesis using 1 2 3 4 5 by blast
qed

subsection \<open>Scope discovery\<close>

lemma discovery_step_Some:
  "(discovery_step r = Inr (Some s)) =
     (s \<noteq> [] \<and> (\<exists>md. r = Inr (Some md) \<and> scopes_supported md = Some s))"
  unfolding discovery_step_def
  by (auto split: sum.splits option.splits)

lemma discovery_step_throws:
  "(discovery_step r = Inl e) = (e = TypeError \<and> (r = Inl JUndefined \<or> r = Inl JNull))"
proof (cases r)
  case (Inl thrown)
  then show ?thesis
    by (cases thrown) (auto simp: discovery_step_def split: option.splits)
next
  case (Inr found)
  then show ?thesis
    by (auto simp: discovery_step_def split: option.splits)
qed

lemma wellKnownUrl_configured:
  "well_known_url config = Some w \<Longrightarrow> w \<noteq> [] \<Longrightarrow> wellKnownUrl config = w"
  by (simp add: wellKnownUrl_def nonempty_def)

lemma wellKnownUrl_derived:
  "well_known_url config = None \<or> well_known_url config = Some [] \<Longrightarrow>
   wellKnownUrl config = server_url config @ ''/.well-known/oauth-authorization-server''"
  by (auto simp: wellKnownUrl_def nonempty_def)

text \<open>
  The chain as far as it holds. Scopes of the resource metadata win when the configuration
  advertises resource metadata. When that call gives no scopes, or rejects with a value that
  has a message to read, the scopes of the authorization server win, fetched at the configured
  well-known URL or at the one derived from the server URL. When that call too gives no
  scopes the defaults are returned. Nothing is thrown, and with non-empty defaults the result
  is never empty, whatever the discovery calls do.
\<close>

lemma discoverScopes_chain:
  "(supports_resource_metadata config \<and>
    discoverOAuthProtectedResourceMetadata sdk (server_url config) = Inr (Some md) \<and>
    scopes_supported md = Some s \<and> s \<noteq> []
    \<longrightarrow> discoverScopes sdk config = (ResourceMetadata, s)) \<and>
   ((\<not> supports_resource_metadata config \<or>
     discovery_step (discoverOAuthProtectedResourceMetadata sdk (server_url config)) = Inr None) \<and>
    well_known_url config = Some w \<and> w \<noteq> [] \<and>
    discoverAuthorizationServerMetadata sdk w = Inr (Some md) \<and>
    scopes_supported md = Some s \<and> s \<noteq> []
    \<longrightarrow> discoverScopes sdk config = (AuthorizationServerMetadata, s)) \<and>
   ((\<not> supports_resource_metadata config \<or>
     discovery_step (discoverOAuthProtectedResourceMetadata sdk (server_url config)) = Inr None) \<and>
    (well_known_url config = None \<or> well_known_url config = Some []) \<and>
    discoverAuthorizationServerMetadata sdk
      (server_url config @ ''/.well-known/oauth-authorization-server'') = Inr (Some md) \<and>
    scopes_supported md = Some s \<and> s \<noteq> []
    \<longrightarrow> discoverScopes sdk config = (AuthorizationServerMetadata, s)) \<and>
   ((\<not> supports_resource_metadata config \<or>
     discovery_step (discoverOAuthProtectedResourceMetadata sdk (server_url config)) = Inr None) \<and>
    (discovery_step (discoverAuthorizationServerMetadata sdk (wellKnownUrl config)) = Inr None \<or>
     discovery_step (discoverAuthorizationServerMetadata sdk (wellKnownUrl config)) = Inl TypeError)
    \<longrightarrow> discoverScopes sdk config = (ConfiguredDefault, default_scopes config)) \<and>
   (fst (discoverScopes sdk config) = ConfiguredDefault
    \<longrightarrow> snd (discoverScopes sdk config) = default_scopes config) \<and>
   (default_scopes config \<noteq> [] \<longrightarrow> snd (discoverScopes sdk config) \<noteq> [])"
proof -
  let ?res = "discovery_step (discoverOAuthProtectedResourceMetadata sdk (server_url config))"
  let ?auth = "discovery_step (discoverAuthorizationServerMetadata sdk (wellKnownUrl config))"
  note defs = discoverScopes_def discoverScopes_try_def
  have c1: "discoverScopes sdk config = (ResourceMetadata, s)"
    if "supports_resource_metadata config"
      and "discoverOAuthProtectedResourceMetadata sdk (server_url config) = Inr (Some md)"
      and "scopes_supported md = Some s" and "s \<noteq> []"
  proof -
    have "?res = Inr (Some s)" using that by (simp add: discovery_step_Some)
    with that(1) show ?thesis by (simp add: defs)
  qed
  have step2: "discoverScopes sdk config = (AuthorizationServerMetadata, s)"
    if "\<not> supports_resource_metadata config \<or> ?res = Inr None"
      and "discoverAuthorizationServerMetadata sdk (wellKnownUrl config) = Inr (Some md)"
      and "scopes_supported md = Some s" and "s \<noteq> []"
  proof -
    have "?auth = Inr (Some s)" using that by (simp add: discovery_step_Some)
    with that(1) show ?thesis by (auto simp: defs)
  qed
  have c2: "discoverScopes sdk config = (AuthorizationServerMetadata, s)"
    if "\<not> supports_resource_metadata config \<or> ?res = Inr None"
      and "well_known_url config = Some w" "w \<noteq> []"
      and "discoverAuthorizationServerMetadata sdk w = Inr (Some md)"
      and "scopes_supported md = Some s" and "s \<noteq> []"
    using that step2 wellKnownUrl_configured [of config w] by simp
  have c3: "discoverScopes sdk config = (AuthorizationServerMetadata, s)"
    if "\<not> supports_resource_metadata config \<or> ?res = Inr None"
      and "well_known_url config = None \<or> well_known_url config = Some []"
      and "discoverAuthorizationServerMetadata sdk
        (server_url config @ ''/.well-known/oauth-authorization-server'') = Inr (Some md)"
      and "scopes_supported md = Some s" and "s \<noteq> []"
    using that step2 wellKnownUrl_derived [of config] by simp
  have c4: "discoverScopes sdk config = (ConfiguredDefault, default_scopes config)"
    if "\<not> supports_resource_metadata config \<or> ?res = Inr None"
      and "?auth = Inr None \<or> ?auth = Inl TypeError"
    using that by (auto simp: defs)
  have c5: "snd (discoverScopes sdk config) = default_scopes config"
    if "fst (discoverScopes sdk config) = ConfiguredDefault"
    using that by (auto simp: defs split: sum.splits option.splits if_splits)
  have c6: "snd (discoverScopes sdk config) \<noteq> []" if "default_scopes config \<noteq> []"
    using that
    by (auto simp: defs discovery_step_Some split: sum.splits option.splits if_splits)
  show ?thesis using c1 c2 c3 c4 c5 c6 by blast
qed

lemma discoverScopes_unreachable:
  "discoverOAuthProtectedResourceMetadata sdk (server_url config) = Inl e \<Longrightarrow>
   discoverAuthorizationServerMetadata sdk (wellKnownUrl config) = Inl e' \<Longrightarrow>
   discoverScopes sdk config = (ConfiguredDefault, default_scopes config)"
  by (auto simp: discoverScopes_def discoverScopes_try_def discovery_step_def
      split: sum.splits option.splits)


subsection \<open>Serialisation of sorted scope lists\<close>

lemma hex_digit_inj: "a < 16 \<Longrightarrow> b < 16 \<Longrightarrow> hex_digit a = hex_digit b \<Longrightarrow> a = b"
proof -
  assume a: "a < 16" and b: "b < 16" and e: "hex_digit a = hex_digit b"
  have d: "distinct ''0123456789abcdef''" by simp
  have "''0123456789abcdef'' ! a = ''0123456789abcdef'' ! b"
    using e a b by (simp add: hex_digit_def)
  then show "a = b"
    using d a b by (simp add: nth_eq_iff_index_eq)
qed

lemma control_hex_inj:
  assumes "hex_digit (of_char c div 16) = hex_digit (of_char c' div 16)"
    and "hex_digit (of_char c mod 16) = hex_digit (of_char c' mod 16)"
    and "c < CHR 0x20" and "c' < CHR 0x20"
  shows "c = c'"
proof -
  have lt: "(of_char c :: nat) < 32" "(of_char c' :: nat) < 32"
    using assms(3,4) by (simp_all add: less_char_def)
  then have "(of_char c :: nat) div 16 < 16" "(of_char c' :: nat) div 16 < 16" by auto
  with assms(1) have d: "(of_char c :: nat) div 16 = of_char c' div 16"
    by (rule hex_digit_inj [rotated 2])
  have "(of_char c :: nat) mod 16 < 16" "(of_char c' :: nat) mod 16 < 16" by auto
  with assms(2) have m: "(of_char c :: nat) mod 16 = of_char c' mod 16"
    by (rule hex_digit_inj [rotated 2])
  have "(of_char c :: nat) = of_char c'"
    using d m by (metis div_mult_mod_eq)
  then show ?thesis by simp
qed

lemma json_escape_prefix_code:
  "json_escape c @ r = json_escape c' @ r' \<Longrightarrow> c = c' \<and> r = r'"
  unfolding json_escape_def
  by (auto split: if_splits dest: control_hex_inj)

lemma json_escape_hd: "\<exists>a as. json_escape c = a # as \<and> a \<noteq> CHR 0x22"
  unfolding json_escape_def by auto

lemma escaped_body_inj:
  "concat (map json_escape s) @ CHR 0x22 # r = concat (map json_escape s') @ CHR 0x22 # r'
   \<Longrightarrow> s = s' \<and> r = r'"
proof (induction s arbitrary: s')
  case Nil
  show ?case
  proof (cases s')
    case Nil
    with Nil.prems show ?thesis by simp
  next
    case (Cons c t)
    obtain a as where "json_escape c = a # as" "a \<noteq> CHR 0x22"
      using json_escape_hd by blast
    with Nil.prems Cons show ?thesis by simp
  qed
next
  case (Cons c t)
  show ?case
  proof (cases s')
    case Nil
    obtain a as where "json_escape c = a # as" "a \<noteq> CHR 0x22"
      using json_escape_hd by blast
    with Cons.prems Nil show ?thesis by simp
  next
    case (Cons c' t')
    from Cons.prems Cons
    have "json_escape c @ (concat (map json_escape t) @ CHR 0x22 # r) =
          json_escape c' @ (concat (map json_escape t') @ CHR 0x22 # r')"
      by simp
    then have "c = c'" and
      "concat (map json_escape t) @ CHR 0x22 # r = concat (map json_escape t') @ CHR 0x22 # r'"
      using json_escape_prefix_code by blast+
    with Cons.IH Cons show ?thesis by blast
  qed
qed

lemma QuoteJSONString_inj:
  "QuoteJSONString s @ r = QuoteJSONString s' @ r' \<Longrightarrow> s = s' \<and> r = r'"
  using escaped_body_inj [of s r s' r'] by (simp add: QuoteJSONString_def)

lemma QuoteJSONString_hd: "\<exists>as. QuoteJSONString s = CHR 0x22 # as"
  by (simp add: QuoteJSONString_def)

lemma join_comma_Cons:
  "join_comma (x # xs) = x @ (if xs = [] then [] else CHR '','' # join_comma xs)"
  by (cases xs) simp_all

lemma join_quoted_inj:
  "join_comma (map QuoteJSONString xs) @ [CHR '']''] =
   join_comma (map QuoteJSONString ys) @ [CHR '']''] \<Longrightarrow> xs = ys"
proof (induction xs arbitrary: ys)
  case Nil
  show ?case
  proof (cases ys)
    case Nil
    then show ?thesis by simp
  next
    case (Cons y ys')
    obtain as where "QuoteJSONString y = CHR 0x22 # as"
      using QuoteJSONString_hd by blast
    with Nil.prems Cons show ?thesis by (simp add: join_comma_Cons)
  qed
next
  case (Cons x xs')
  show ?case
  proof (cases ys)
    case Nil
    obtain as where "QuoteJSONString x = CHR 0x22 # as"
      using QuoteJSONString_hd by blast
    with Cons.prems Nil show ?thesis by (simp add: join_comma_Cons)
  next
    case (Cons y ys')
    let ?tl = "\<lambda>zs. (if zs = [] then [] else CHR '','' # join_comma (map QuoteJSONString zs)) @ [CHR '']'']"
    from Cons.prems Cons
    have "QuoteJSONString x @ ?tl xs' = QuoteJSONString y @ ?tl ys'"
      by (simp add: join_comma_Cons)
    then have xy: "x = y" and tl: "?tl xs' = ?tl ys'"
      using QuoteJSONString_inj by blast+
    have "xs' = ys'"
    proof (cases "xs' = []")
      case True
      with tl show ?thesis by (auto split: if_splits)
    next
      case False
      with tl have "ys' \<noteq> []" by (auto split: if_splits)
      with tl False have
        "join_comma (map QuoteJSONString xs') @ [CHR '']''] =
         join_comma (map QuoteJSONString ys') @ [CHR '']'']"
        by simp
      then show ?thesis by (rule Cons.IH)
    qed
    with xy Cons show ?thesis by simp
  qed
qed

lemma JSON_stringify_inj: "JSON_stringify xs = JSON_stringify ys \<Longrightarrow> xs = ys"
  using join_quoted_inj [of xs ys] by (simp add: JSON_stringify_def)

lemma JSON_stringify_eq_iff: "(JSON_stringify xs = JSON_stringify ys) = (xs = ys)"
  using JSON_stringify_inj by blast

lemma sort_eq_iff_mset: "(sort xs = sort ys) = (mset xs = mset ys)"
  by (metis mset_sort properties_for_sort sorted_sort)

subsection \<open>init\<close>

lemma init_eq:
  "init sdk config =
     (case discoverScopes sdk config of
        (origin, d) \<Rightarrow>
          if d = [] then (config, [])
          else if sort d \<noteq> sort (scopes config)
          then (config\<lparr>scopes := sort d,
                       default_scopes :=
                         (if origin = ConfiguredDefault then sort d else default_scopes config)\<rparr>,
                [LogInfo ''Updated to use discovered scopes''])
          else (config\<lparr>scopes := sort (scopes config),
                       default_scopes :=
                         (if origin = ConfiguredDefault then sort d else default_scopes config)\<rparr>,
                []))"
  by (simp add: init_def Let_def JSON_stringify_eq_iff split: prod.splits)

text \<open>
  Claim C9, as the code has it. \<open>init\<close> replaces the configured scopes by the discovered
  ones, and logs the update, if and only if the discovered list is non-empty and differs from
  the configured list when both are sorted; two lists are equal when sorted exactly when
  they hold the same elements the same number of times. After a replacement the scopes are
  the sorted discovered list. Without one the configured scopes keep their elements, and
  with an empty discovered list the configuration is untouched. With scopes and default
  scopes both \<^verbatim>\<open>["read","write"]\<close> and both discovery calls failing, \<open>init\<close> leaves
  the configuration as it is.
\<close>

theorem init_updates_scopes:
  "(snd (init sdk config) = [LogInfo ''Updated to use discovered scopes''] \<longleftrightarrow>
      snd (discoverScopes sdk config) \<noteq> [] \<and>
      sort (snd (discoverScopes sdk config)) \<noteq> sort (scopes config)) \<and>
   (snd (init sdk config) \<noteq> [LogInfo ''Updated to use discovered scopes''] \<longleftrightarrow>
      snd (init sdk config) = []) \<and>
   (sort (snd (discoverScopes sdk config)) = sort (scopes config) \<longleftrightarrow>
      mset (snd (discoverScopes sdk config)) = mset (scopes config)) \<and>
   (snd (discoverScopes sdk config) \<noteq> [] \<and>
    sort (snd (discoverScopes sdk config)) \<noteq> sort (scopes config)
    \<longrightarrow> scopes (fst (init sdk config)) = sort (snd (discoverScopes sdk config))) \<and>
   (snd (discoverScopes sdk config) = [] \<or>
    sort (snd (discoverScopes sdk config)) = sort (scopes config)
    \<longrightarrow> mset (scopes (fst (init sdk config))) = mset (scopes config)) \<and>
   (snd (discoverScopes sdk config) = [] \<longrightarrow> init sdk config = (config, [])) \<and>
   (discoverOAuthProtectedResourceMetadata sdk (server_url config) = Inl e \<and>
    discoverAuthorizationServerMetadata sdk (wellKnownUrl config) = Inl e' \<and>
    scopes config = [''read'', ''write''] \<and> default_scopes config = [''read'', ''write'']
    \<longrightarrow> init sdk config = (config, []))"
proof -
  obtain origin d where od: "discoverScopes sdk config = (origin, d)"
    by (cases "discoverScopes sdk config")
  have 1: "snd (init sdk config) = [LogInfo ''Updated to use discovered scopes''] \<longleftrightarrow>
      d \<noteq> [] \<and> sort d \<noteq> sort (scopes config)"
    by (simp add: init_eq od)
  have 2: "snd (init sdk config) \<noteq> [LogInfo ''Updated to use discovered scopes''] \<longleftrightarrow>
      snd (init sdk config) = []"
    by (simp add: init_eq od)
  have 3: "sort d = sort (scopes config) \<longleftrightarrow> mset d = mset (scopes config)"
    by (rule sort_eq_iff_mset)
  have 4: "scopes (fst (init sdk config)) = sort d" if "d \<noteq> []" "sort d \<noteq> sort (scopes config)"
    using that by (simp add: init_eq od)
  have 5: "mset (scopes (fst (init sdk config))) = mset (scopes config)"
    if "d = [] \<or> sort d = sort (scopes config)"
    using that by (auto simp: init_eq od)
  have 6: "init sdk config = (config, [])" if "d = []"
    using that by (simp add: init_eq od)
  have 7: "init sdk config = (config, [])"
    if "discoverOAuthProtectedResourceMetadata sdk (server_url config) = Inl e"
      "discoverAuthorizationServerMetadata sdk (wellKnownUrl config) = Inl e'"
      "scopes config = [''read'', ''write'']" "default_scopes config = [''read'', ''write'']"
  proof -
    have s: "sort [''read'', ''write''] = [''read'', ''write'']" by simp
    have "discoverScopes sdk config = (ConfiguredDefault, [''read'', ''write''])"
      using discoverScopes_unreachable [OF that(1,2)] that(4) by simp
    then have "init sdk config =
        (config\<lparr>scopes := [''read'', ''write''], default_scopes := [''read'', ''write'']\<rparr>, [])"
      using that(3) by (simp add: init_eq s)
    moreover have "config\<lparr>scopes := [''read'', ''write''], default_scopes := [''read'', ''write'']\<rparr> = config"
      using that(3,4) by simp
    ultimately show ?thesis by simp
  qed
  show ?thesis using 1 2 3 4 5 6 7 by (simp add: od)
qed

theorem init_updates_scopes_witness:
  "discoverOAuthProtectedResourceMetadata unreachable (server_url example_config) =
     Inl (JObj [(''message'', JStr ''fetch failed'')]) \<and>
   discoverAuthorizationServerMetadata unreachable (wellKnownUrl example_config) =
     Inl (JObj [(''message'', JStr ''fetch failed'')]) \<and>
   scopes example_config = [''read'', ''write''] \<and>
   default_scopes example_config = [''read'', ''write''] \<and>
   init unreachable example_config = (example_config, []) \<and>
   snd (discoverScopes unreachable (example_config\<lparr>scopes := [''admin'']\<rparr>)) \<noteq> [] \<and>
   sort (snd (discoverScopes unreachable (example_config\<lparr>scopes := [''admin'']\<rparr>))) \<noteq>
     sort (scopes (example_config\<lparr>scopes := [''admin'']\<rparr>)) \<and>
   scopes (fst (init unreachable (example_config\<lparr>scopes := [''admin'']\<rparr>))) = [''read'', ''write'']"
proof -
  let ?other = "example_config\<lparr>scopes := [''admin'']\<rparr>"
  have r: "discoverOAuthProtectedResourceMetadata unreachable (server_url example_config) =
      Inl (JObj [(''message'', JStr ''fetch failed'')])"
    by (simp add: unreachable_def)
  have a: "discoverAuthorizationServerMetadata unreachable (wellKnownUrl example_config) =
      Inl (JObj [(''message'', JStr ''fetch failed'')])"
    by (simp add: unreachable_def)
  have s: "scopes example_config = [''read'', ''write'']"
    and d: "default_scopes example_config = [''read'', ''write'']"
    by (simp_all add: example_config_def)
  have found: "snd (discoverScopes unreachable ?other) = [''read'', ''write'']"
    by (simp add: discoverScopes_def discoverScopes_try_def discovery_step_def unreachable_def
        example_config_def)
  have sorted: "sort [''read'', ''write''] = [''read'', ''write'']" by simp
  have differ: "snd (discoverScopes unreachable ?other) \<noteq> [] \<and>
      sort (snd (discoverScopes unreachable ?other)) \<noteq> sort (scopes ?other)"
    by (simp add: found)
  have same: "init unreachable example_config = (example_config, [])"
    using init_updates_scopes [of unreachable example_config
        "JObj [(''message'', JStr ''fetch failed'')]" "JObj [(''message'', JStr ''fetch failed'')]"]
      r a s d
    by blast
  have updated: "scopes (fst (init unreachable ?other)) = [''read'', ''write'']"
    using init_updates_scopes [of unreachable ?other] differ found sorted by simp
  show ?thesis using r a s d same differ updated by blast
qed

text \<open>
  The claim as stated fails: with no default scopes and no discovery endpoint reachable the
  discovered list is empty and differs from the configured \<^verbatim>\<open>["read"]\<close>, yet
  \<open>init\<close> does not update the configuration.
\<close>

theorem init_empty_discovery_counterexample:
  "sort (snd (discoverScopes unreachable (example_config\<lparr>default_scopes := [], scopes := [''read'']\<rparr>)))
     \<noteq> sort (scopes (example_config\<lparr>default_scopes := [], scopes := [''read'']\<rparr>)) \<and>
   init unreachable (example_config\<lparr>default_scopes := [], scopes := [''read'']\<rparr>) =
     (example_config\<lparr>default_scopes := [], scopes := [''read'']\<rparr>, [])"
  by (simp add: init_def discoverScopes_def discoverScopes_try_def discovery_step_def
      unreachable_def example_config_def)

subsection \<open>Client information\<close>

text \<open>
  Claim C2. With a non-empty static client id, \<open>clientInformation\<close> returns the static
  identity (the secret only when it is non-empty) and makes no query to the persistence
  model, whatever that model holds. It queries the model only when no non-empty client id
  is configured, returns the cached registration of the first row when there is one, and
  returns undefined exactly when there is neither a static id nor a cached registration
  to read.
\<close>

theorem clientInformation_priority:
  "(\<forall>cid. client_id config = Some cid \<and> cid \<noteq> [] \<longrightarrow>
      clientInformation getById config serverId =
        ([], Some \<lparr>info_client_id = cid, info_client_secret = nonempty (client_secret config)\<rparr>)) \<and>
   (fst (clientInformation getById config serverId) \<noteq> [] \<longrightarrow>
      client_id config = None \<or> client_id config = Some []) \<and>
   (\<forall>row rest cached.
      (client_id config = None \<or> client_id config = Some []) \<and>
      getById serverId = Inr (row # rest) \<and> oauthClientInfo row = Some cached \<longrightarrow>
      clientInformation getById config serverId =
        ([serverId], Some \<lparr>info_client_id = info_client_id cached,
                           info_client_secret = nonempty (info_client_secret cached)\<rparr>)) \<and>
   (snd (clientInformation getById config serverId) = None \<longleftrightarrow>
      (client_id config = None \<or> client_id config = Some []) \<and>
      \<not> (\<exists>row rest cached. getById serverId = Inr (row # rest) \<and> oauthClientInfo row = Some cached))"
  unfolding clientInformation_def nonempty_def
  by (auto split: option.splits sum.splits list.splits if_splits)


theorem clientInformation_priority_witness:
  "clientInformation example_getById
     (example_config\<lparr>client_id := Some ''static-id'', client_secret := Some ''s3cret''\<rparr>) ''server-1'' =
     ([], Some \<lparr>info_client_id = ''static-id'', info_client_secret = Some ''s3cret''\<rparr>) \<and>
   clientInformation example_getById example_config ''server-1'' =
     ([''server-1''], Some \<lparr>info_client_id = ''dynamic-id'', info_client_secret = None\<rparr>) \<and>
   snd (clientInformation example_getById example_config ''server-2'') = None"
proof -
  let ?static = "example_config\<lparr>client_id := Some ''static-id'', client_secret := Some ''s3cret''\<rparr>"
  let ?row = "\<lparr>oauthClientInfo = Some \<lparr>info_client_id = ''dynamic-id'', info_client_secret = None\<rparr>\<rparr>"
  have a: "client_id ?static = Some ''static-id'' \<and> ''static-id'' \<noteq> []"
    by simp
  have s: "nonempty (client_secret ?static) = Some ''s3cret''"
    by (simp add: nonempty_def)
  have b: "(client_id example_config = None \<or> client_id example_config = Some []) \<and>
      example_getById ''server-1'' = Inr (?row # []) \<and>
      oauthClientInfo ?row = Some \<lparr>info_client_id = ''dynamic-id'', info_client_secret = None\<rparr>"
    by (simp add: example_config_def example_getById_def)
  have c: "(client_id example_config = None \<or> client_id example_config = Some []) \<and>
      \<not> (\<exists>row rest cached. example_getById ''server-2'' = Inr (row # rest) \<and> oauthClientInfo row = Some cached)"
    by (simp add: example_config_def example_getById_def)
  have 1: "clientInformation example_getById ?static ''server-1'' =
     ([], Some \<lparr>info_client_id = ''static-id'', info_client_secret = Some ''s3cret''\<rparr>)"
    using clientInformation_priority [of ?static example_getById "''server-1''"] a s by metis
  have 2: "clientInformation example_getById example_config ''server-1'' =
     ([''server-1''], Some \<lparr>info_client_id = ''dynamic-id'', info_client_secret = None\<rparr>)"
    using clientInformation_priority [of example_config example_getById "''server-1''",
        THEN conjunct2, THEN conjunct2, THEN conjunct1, rule_format, OF b]
    by (simp add: nonempty_def)
  have 3: "snd (clientInformation example_getById example_config ''server-2'') = None"
    using clientInformation_priority [of example_config example_getById "''server-2''",
        THEN conjunct2, THEN conjunct2, THEN conjunct2] c by blast
  show ?thesis using 1 2 3 by blast
qed

subsection \<open>The callback listener\<close>


lemma outcome_server_close [simp]: "outcome (server_close l) = outcome l"
  by (simp add: server_close_def)

lemma close_called_settle [simp]: "close_called (settle s l) = close_called l"
  by (simp add: settle_def)





















subsection \<open>The code verifier store\<close>

lemma store_after_append:
  "store_after upd (calls @ later) store = store_after upd later (store_after upd calls store)"
  by (induction upd calls store rule: store_after.induct) simp_all

lemma store_after_lookup:
  "store_after upd calls Map.empty serverId = saved_since_clear serverId calls"
proof (induction calls rule: rev_induct)
  case Nil
  show ?case by (simp add: saved_since_clear_def)
next
  case (snoc c calls)
  then show ?case
    by (cases c)
      (simp_all add: store_after_append saved_since_clear_def saveCodeVerifier_def clear_def
        Let_def split: sum.splits)
qed

text \<open>
  Claim C6, as the code has it. After any history of saves and clears on the initially empty
  store, \<open>codeVerifier\<close> returns the verifier most recently saved for the server id since
  the last clear for it when that verifier is non-empty, and fails with the missing-verifier
  error when there is none or when it is the empty string.
\<close>

theorem codeVerifier_after_history:
  "codeVerifier serverId (store_after upd calls Map.empty) =
     (case saved_since_clear serverId calls of
        None \<Rightarrow> Inl NoCodeVerifier
      | Some verifier \<Rightarrow> if verifier = [] then Inl NoCodeVerifier else Inr verifier) \<and>
   (codeVerifier serverId (store_after upd calls Map.empty) = Inl NoCodeVerifier \<longleftrightarrow>
      saved_since_clear serverId calls = None \<or> saved_since_clear serverId calls = Some [])"
  by (simp add: codeVerifier_def store_after_lookup nonempty_def split: option.splits)

theorem codeVerifier_after_history_witness:
  "codeVerifier ''server-1''
     (store_after update_fails
        [SaveCodeVerifier ''server-1'' ''first'', SaveCodeVerifier ''server-2'' ''other'',
         SaveCodeVerifier ''server-1'' ''second'', Clear ''server-2'']
        Map.empty) = Inr ''second'' \<and>
   codeVerifier ''server-2''
     (store_after update_fails
        [SaveCodeVerifier ''server-1'' ''first'', SaveCodeVerifier ''server-2'' ''other'',
         SaveCodeVerifier ''server-1'' ''second'', Clear ''server-2'']
        Map.empty) = Inl NoCodeVerifier"
proof -
  let ?calls = "[SaveCodeVerifier ''server-1'' ''first'', SaveCodeVerifier ''server-2'' ''other'',
         SaveCodeVerifier ''server-1'' ''second'', Clear ''server-2'']"
  have 1: "saved_since_clear ''server-1'' ?calls = Some ''second''"
    by (simp add: saved_since_clear_def)
  have 2: "saved_since_clear ''server-2'' ?calls = None"
    by (simp add: saved_since_clear_def)
  show ?thesis
    using codeVerifier_after_history [of "''server-1''" update_fails ?calls]
      codeVerifier_after_history [of "''server-2''" update_fails ?calls] 1 2
    by simp
qed

text \<open>
  The claim as stated fails: after a single save of the empty string, a save has occurred
  since the last clear, and reading the verifier fails with the missing-verifier error.
\<close>

theorem codeVerifier_empty_counterexample:
  "saved_since_clear ''server-1'' [SaveCodeVerifier ''server-1'' ''''] = Some '''' \<and>
   codeVerifier ''server-1'' (store_after update_ok [SaveCodeVerifier ''server-1'' ''''] Map.empty) =
     Inl NoCodeVerifier"
  by (simp add: saved_since_clear_def codeVerifier_def saveCodeVerifier_def nonempty_def)

text \<open>
  Claim C7. After \<open>clear\<close>, reading the verifier of the session fails with the
  missing-verifier error, whether the persistence update has succeeded or thrown: the entry
  is deleted from the store in both cases, the promise of \<open>clear\<close> never rejects, and an
  error of the update is written to the log.
\<close>

theorem clear_leaves_no_verifier:
  "codeVerifier serverId (fst (clear upd serverId store)) = Inl NoCodeVerifier \<and>
   fst (clear upd serverId store) = store(serverId := None) \<and>
   snd (snd (clear upd serverId store)) = Inr () \<and>
   (upd serverId cleared_fields = Inl e \<longrightarrow>
      fst (snd (clear upd serverId store)) = [LogError ''Failed to clear OAuth data from database:''])"
  unfolding clear_def codeVerifier_def nonempty_def
  by (simp add: Let_def split: sum.splits)

theorem clear_leaves_no_verifier_witness:
  "codeVerifier ''server-1'' (saveCodeVerifier ''server-1'' ''verifier-1'' Map.empty) =
     Inr ''verifier-1'' \<and>
   update_fails ''server-1'' cleared_fields = Inl (Failure ''database is locked'') \<and>
   codeVerifier ''server-1''
     (fst (clear update_fails ''server-1'' (saveCodeVerifier ''server-1'' ''verifier-1'' Map.empty))) =
     Inl NoCodeVerifier \<and>
   snd (clear update_fails ''server-1'' (saveCodeVerifier ''server-1'' ''verifier-1'' Map.empty)) =
     ([LogError ''Failed to clear OAuth data from database:''], Inr ()) \<and>
   codeVerifier ''server-1''
     (fst (clear update_ok ''server-1'' (saveCodeVerifier ''server-1'' ''verifier-1'' Map.empty))) =
     Inl NoCodeVerifier"
proof -
  let ?store = "saveCodeVerifier ''server-1'' ''verifier-1'' Map.empty"
  have before: "codeVerifier ''server-1'' ?store = Inr ''verifier-1''"
    by (simp add: codeVerifier_def saveCodeVerifier_def nonempty_def)
  have fails: "update_fails ''server-1'' cleared_fields = Inl (Failure ''database is locked'')"
    by (simp add: update_fails_def)
  have 1: "codeVerifier ''server-1'' (fst (clear update_fails ''server-1'' ?store)) = Inl NoCodeVerifier"
    using clear_leaves_no_verifier [of "''server-1''" update_fails ?store] by blast
  have 2: "snd (clear update_fails ''server-1'' ?store) =
      ([LogError ''Failed to clear OAuth data from database:''], Inr ())"
    using clear_leaves_no_verifier [of "''server-1''" update_fails ?store
        "Failure ''database is locked''"] fails
    by (simp add: prod_eq_iff)
  have 3: "codeVerifier ''server-1'' (fst (clear update_ok ''server-1'' ?store)) = Inl NoCodeVerifier"
    using clear_leaves_no_verifier [of "''server-1''" update_ok ?store] by blast
  show ?thesis using before fails 1 2 3 by blast
qed

end
